theory Spec2Isabelle
  imports Main
begin

section \<open>Text primitives of the host language\<close>

text \<open>
  Text is a list of characters, each standing for one code point below 256. The
  classification of those code points is the one Python applies to \<open>str\<close>.
\<close>

definition isspace :: "char \<Rightarrow> bool" where
  \<comment> \<open>\<open>str.isspace\<close> on one character: 9 to 13, 28 to 32, 0x85, 0xA0.\<close>
  "isspace c =
     (let n = (of_char c :: nat)
      in (9 \<le> n \<and> n \<le> 13) \<or> (28 \<le> n \<and> n \<le> 32) \<or> n = 133 \<or> n = 160)"

definition py_strip :: "string \<Rightarrow> string" where
  \<comment> \<open>\<open>s.strip()\<close>: drops leading and trailing whitespace.\<close>
  "py_strip s = rev (dropWhile isspace (rev (dropWhile isspace s)))"

fun split_from :: "char \<Rightarrow> string \<Rightarrow> string \<Rightarrow> string list" where
  "split_from sep field [] = [field]"
| "split_from sep field (c # cs) =
     (if c = sep then field # split_from sep [] cs
      else split_from sep (field @ [c]) cs)"

definition py_split :: "char \<Rightarrow> string \<Rightarrow> string list" where
  \<comment> \<open>\<open>s.split(sep)\<close> with a one-character separator: one field more than separators.\<close>
  "py_split sep s = split_from sep [] s"

fun universal_newlines :: "string \<Rightarrow> string" where
  "universal_newlines [] = []"
| "universal_newlines (c # cs) =
     (if c = CHR 0x0D then
        CHR 0x0A # (case cs of
                      [] \<Rightarrow> []
                    | d # ds \<Rightarrow> if d = CHR 0x0A then universal_newlines ds
                               else universal_newlines cs)
      else c # universal_newlines cs)"

fun lines_from :: "string \<Rightarrow> string \<Rightarrow> string list" where
  "lines_from cur [] = (if cur = [] then [] else [cur])"
| "lines_from cur (c # cs) =
     (if c = CHR 0x0A then (cur @ [c]) # lines_from [] cs
      else lines_from (cur @ [c]) cs)"

definition py_readlines :: "string \<Rightarrow> string list" where
  \<comment> \<open>\<open>f.readlines()\<close> of a file opened with \<open>open(file, 'r')\<close>: the three line
      endings are read as a line feed, and every line keeps its line feed.\<close>
  "py_readlines text = lines_from [] (universal_newlines text)"

section \<open>Floating-point numbers\<close>

text \<open>
  A binary64 value: \<open>Finite neg m e\<close> is \<open>m * 2 ^ e\<close> with the sign \<open>neg\<close>, where
  either \<open>m = 0\<close> and \<open>e = 0\<close>, or \<open>2 ^ 52 \<le> m < 2 ^ 53\<close> and \<open>- 1074 \<le> e \<le> 971\<close>, or
  \<open>m < 2 ^ 52\<close> and \<open>e = - 1074\<close>.
\<close>

datatype pyfloat = Finite bool nat int | Inf bool | NaN

fun bitlen :: "nat \<Rightarrow> nat" where
  "bitlen n = (if n = 0 then 0 else Suc (bitlen (n div 2)))"

declare bitlen.simps [simp del]

definition floor_log2 :: "nat \<Rightarrow> nat \<Rightarrow> int" where
  \<comment> \<open>The \<open>l\<close> with \<open>2 ^ l \<le> num / den < 2 ^ (l + 1)\<close>, for positive \<open>num\<close> and \<open>den\<close>.\<close>
  "floor_log2 num den =
     (let d = int (bitlen num) - int (bitlen den)
      in if (if 0 \<le> d then den * 2 ^ nat d \<le> num else den \<le> num * 2 ^ nat (- d))
         then d else d - 1)"

definition round_half_even :: "nat \<Rightarrow> nat \<Rightarrow> nat" where
  \<comment> \<open>\<open>a / b\<close> rounded to the nearest integer, ties to the even one.\<close>
  "round_half_even a b =
     (let q = a div b; r = a mod b
      in if 2 * r < b then q
         else if b < 2 * r then q + 1
         else if even q then q else q + 1)"

definition to_double :: "bool \<Rightarrow> nat \<Rightarrow> int \<Rightarrow> pyfloat" where
  \<comment> \<open>The binary64 value nearest to \<open>n * 10 ^ k\<close>, ties to even; overflow gives an
      infinity and underflow a zero, both with the sign.\<close>
  "to_double neg n k =
     (if n = 0 then Finite neg 0 0
      else
        let num = (if 0 \<le> k then n * 10 ^ nat k else n);
            den = (if 0 \<le> k then 1 else 10 ^ nat (- k));
            e = max (floor_log2 num den - 52) (- 1074);
            m = (if 0 \<le> e then round_half_even num (den * 2 ^ nat e)
                 else round_half_even (num * 2 ^ nat (- e)) den);
            m' = (if m = 2 ^ 53 then 2 ^ 52 else m);
            e' = (if m = 2 ^ 53 then e + 1 else e)
        in if m' = 0 then Finite neg 0 0
           else if 971 < e' then Inf neg
           else Finite neg m' e')"

subsection \<open>Reading a number: \<open>float(s)\<close>\<close>

definition is_digit :: "char \<Rightarrow> bool" where
  "is_digit c = (48 \<le> (of_char c :: nat) \<and> (of_char c :: nat) \<le> 57)"

definition digit_val :: "char \<Rightarrow> nat" where
  "digit_val c = of_char c - 48"

definition nat_of_digits :: "string \<Rightarrow> nat" where
  "nat_of_digits ds = foldl (\<lambda>acc c. 10 * acc + digit_val c) 0 ds"

fun transform_decimal_and_space :: "string \<Rightarrow> string" where
  \<comment> \<open>Non-ASCII whitespace becomes a space; the text is cut after the first other
      non-ASCII character, which is replaced by a question mark. (Below 256 no
      non-ASCII character is a decimal digit.)\<close>
  "transform_decimal_and_space [] = []"
| "transform_decimal_and_space (c # cs) =
     (if (of_char c :: nat) < 127 then c # transform_decimal_and_space cs
      else if isspace c then CHR '' '' # transform_decimal_and_space cs
      else [CHR ''?''])"

fun remove_underscores :: "char \<Rightarrow> string \<Rightarrow> string option" where
  \<comment> \<open>An underscore is allowed only between two digits; \<open>prev\<close> is the character before.\<close>
  "remove_underscores prev [] = (if prev = CHR ''_'' then None else Some [])"
| "remove_underscores prev (c # cs) =
     (if c = CHR ''_'' then
        (if is_digit prev then remove_underscores c cs else None)
      else if prev = CHR ''_'' \<and> \<not> is_digit c then None
      else map_option ((#) c) (remove_underscores c cs))"

definition is_ascii_space :: "char \<Rightarrow> bool" where
  \<comment> \<open>The C-level whitespace test used inside \<open>float\<close>: 9 to 13 and the space.\<close>
  "is_ascii_space c =
     (let n = (of_char c :: nat) in (9 \<le> n \<and> n \<le> 13) \<or> n = 32)"

definition parse_sign :: "string \<Rightarrow> bool \<times> string" where
  "parse_sign s =
     (case s of
        [] \<Rightarrow> (False, [])
      | c # cs \<Rightarrow> if c = CHR ''-'' then (True, cs)
                 else if c = CHR ''+'' then (False, cs)
                 else (False, s))"

definition parse_exponent :: "string \<Rightarrow> int option" where
  \<comment> \<open>What may follow the mantissa: nothing, or \<open>e\<close>/\<open>E\<close>, an optional sign and digits.\<close>
  "parse_exponent s =
     (case s of
        [] \<Rightarrow> Some 0
      | c # cs \<Rightarrow>
          if c = CHR ''e'' \<or> c = CHR ''E'' then
            (let (neg, ds) = parse_sign cs
             in if ds \<noteq> [] \<and> list_all is_digit ds
                then Some (if neg then - int (nat_of_digits ds) else int (nat_of_digits ds))
                else None)
          else None)"

definition parse_decimal :: "string \<Rightarrow> (nat \<times> int) option" where
  \<comment> \<open>An unsigned decimal literal, read whole: digits, an optional point and digits
      (at least one digit in all), an optional exponent. The result \<open>(n, k)\<close> stands
      for \<open>n * 10 ^ k\<close>.\<close>
  "parse_decimal s =
     (let ip = takeWhile is_digit s;
          r1 = dropWhile is_digit s;
          fp = (case r1 of
                  [] \<Rightarrow> []
                | c # cs \<Rightarrow> if c = CHR ''.'' then takeWhile is_digit cs else []);
          r2 = (case r1 of
                  [] \<Rightarrow> []
                | c # cs \<Rightarrow> if c = CHR ''.'' then dropWhile is_digit cs else r1)
      in if ip = [] \<and> fp = [] then None
         else (case parse_exponent r2 of
                 None \<Rightarrow> None
               | Some x \<Rightarrow> Some (nat_of_digits (ip @ fp), x - int (length fp))))"

definition to_lower :: "char \<Rightarrow> char" where
  "to_lower c =
     (if 65 \<le> (of_char c :: nat) \<and> (of_char c :: nat) \<le> 90
      then char_of ((of_char c :: nat) + 32) else c)"

definition string_to_double :: "string \<Rightarrow> pyfloat option" where
  \<comment> \<open>A signed decimal literal, or a signed \<open>inf\<close>, \<open>infinity\<close> or \<open>nan\<close> in any case.\<close>
  "string_to_double s =
     (let (neg, body) = parse_sign s
      in case parse_decimal body of
           Some (n, k) \<Rightarrow> Some (to_double neg n k)
         | None \<Rightarrow>
             (let w = map to_lower body
              in if w = ''inf'' \<or> w = ''infinity'' then Some (Inf neg)
                 else if w = ''nan'' then Some NaN
                 else None))"

section \<open>Exceptions\<close>

text \<open>
  The exceptions raised by the operations of the program, each with its message.
  \<open>FileNotFoundError\<close> is a subclass of \<open>OSError\<close> (which \<open>IOError\<close> names too);
  \<open>OSError\<close> stands for every other subclass of it, \<open>ValueError\<close> for itself and its
  subclasses (a decoding error is one), \<open>Exception\<close> for every other subclass of
  \<open>Exception\<close>. An interrupt from outside the program is raised by none of its
  operations and has no place here, and printing a line is taken to succeed.
\<close>

datatype exn =
    FileNotFoundError string
  | OSError string
  | ValueError string
  | Exception string

fun str_of :: "exn \<Rightarrow> string" where
  "str_of (FileNotFoundError m) = m"
| "str_of (OSError m) = m"
| "str_of (ValueError m) = m"
| "str_of (Exception m) = m"

fun is_FileNotFoundError :: "exn \<Rightarrow> bool" where
  "is_FileNotFoundError (FileNotFoundError m) = True"
| "is_FileNotFoundError e = False"

fun is_IOError :: "exn \<Rightarrow> bool" where
  "is_IOError (FileNotFoundError m) = True"
| "is_IOError (OSError m) = True"
| "is_IOError e = False"

fun is_ValueError :: "exn \<Rightarrow> bool" where
  "is_ValueError (ValueError m) = True"
| "is_ValueError e = False"

definition py_float :: "string \<Rightarrow> exn + pyfloat" where
  \<comment> \<open>\<open>float(s)\<close> on a string: underscores between digits are dropped, surrounding
      whitespace is dropped, and the rest is read whole; otherwise \<open>ValueError\<close>.
      (The message of the real exception also quotes \<open>s\<close>; the program never reads it.)\<close>
  "py_float s =
     (case remove_underscores (CHR 0x00) (transform_decimal_and_space s) of
        None \<Rightarrow> Inl (ValueError ''could not convert string to float'')
      | Some t \<Rightarrow>
          (case string_to_double
                  (rev (dropWhile is_ascii_space (rev (dropWhile is_ascii_space t)))) of
             None \<Rightarrow> Inl (ValueError ''could not convert string to float'')
           | Some x \<Rightarrow> Inr x))"

subsection \<open>Writing a number: the format \<open>.2f\<close>\<close>

definition digit_char :: "nat \<Rightarrow> char" where
  "digit_char d = char_of (48 + d)"

fun show_nat :: "nat \<Rightarrow> string" where
  "show_nat n =
     (if n < 10 then [digit_char n] else show_nat (n div 10) @ [digit_char (n mod 10)])"

declare show_nat.simps [simp del]

definition format_2f :: "pyfloat \<Rightarrow> string" where
  \<comment> \<open>\<open>f"{x:.2f}"\<close>: the exact value rounded to hundredths, ties to even, written
      with its sign, all digits before the point and two digits after it.\<close>
  "format_2f x =
     (case x of
        NaN \<Rightarrow> ''nan''
      | Inf neg \<Rightarrow> (if neg then ''-inf'' else ''inf'')
      | Finite neg m e \<Rightarrow>
          (let q = (if 0 \<le> e then m * 2 ^ nat e * 100
                    else round_half_even (m * 100) (2 ^ nat (- e)))
           in (if neg then ''-'' else []) @ show_nat (q div 100) @ ''.''
              @ [digit_char (q mod 100 div 10), digit_char (q mod 10)]))"

section \<open>The application\<close>

text \<open>
  The file system as the program sees it: opening a path for reading and reading all
  of it either raises an exception or gives the decoded text.
\<close>

type_synonym fs = "string \<Rightarrow> exn + string"

datatype callback = UpdateTemperature

text \<open>
  The object \<open>TemperatureReader\<close> with the toolkit state it owns: the label's text,
  font and background, the window's background, the clock of the event loop in
  milliseconds and the timers armed with \<open>root.after\<close> (due time and callback). The
  error boxes shown and the lines printed are kept as logs.
\<close>

record app =
  file_path :: string
  update_interval :: nat
  font_size :: int
  bg_color :: string
  temperature_label_text :: string
  temperature_label_font :: "string \<times> int"
  temperature_label_bg :: "string option"
  root_bg :: "string option"
  clock :: nat
  timers :: "(nat \<times> callback) list"
  errors_shown :: "(string \<times> string) list"
  stdout :: "string list"

definition init :: app where
  \<comment> \<open>\<open>__init__\<close> with \<open>create_widgets\<close>: no path, 3 minutes, size 10, white, label "--".\<close>
  "init =
     \<lparr> file_path = [],
       update_interval = 3 * 60 * 1000,
       font_size = 10,
       bg_color = ''white'',
       temperature_label_text = ''--'',
       temperature_label_font = (''Helvetica'', 10),
       temperature_label_bg = None,
       root_bg = None,
       clock = 0,
       timers = [],
       errors_shown = [],
       stdout = [] \<rparr>"

definition print :: "string \<Rightarrow> app \<Rightarrow> app" where
  "print line s = s\<lparr>stdout := stdout s @ [line]\<rparr>"

definition showerror :: "string \<Rightarrow> string \<Rightarrow> app \<Rightarrow> app" where
  "showerror title message s = s\<lparr>errors_shown := errors_shown s @ [(title, message)]\<rparr>"

definition read_body :: "fs \<Rightarrow> string \<Rightarrow> app \<Rightarrow> (exn + pyfloat option) \<times> app" where
  \<comment> \<open>The body of the outer \<open>try\<close> of \<open>read_latest_temperature\<close>.\<close>
  "read_body fs file s =
     (case fs file of
        Inl e \<Rightarrow> (Inl e, s)
      | Inr text \<Rightarrow>
          (let lines = py_readlines text in
           if lines \<noteq> [] then
             (let latest_line = py_strip (last lines);
                  parts = py_split (CHR '';'') latest_line
              in if length parts = 3 then
                   (case py_float (parts ! 2) of
                      Inr temperature \<Rightarrow> (Inr (Some temperature), s)
                    | Inl e \<Rightarrow>
                        if is_ValueError e then
                          (Inr None, print (''Invalid temperature value: '' @ parts ! 2) s)
                        else (Inl e, s))
                 else (Inr None, print ''No valid lines found in the file.'' s))
           else (Inr None, print ''No valid lines found in the file.'' s)))"

definition read_latest_temperature ::
  "fs \<Rightarrow> string \<Rightarrow> app \<Rightarrow> (exn + pyfloat option) \<times> app" where
  \<comment> \<open>The handlers of the outer \<open>try\<close>, in the order of the source. \<open>Inl\<close> is an
      exception that leaves the function, \<open>Inr None\<close> the value \<open>None\<close>.\<close>
  "read_latest_temperature fs file s =
     (case read_body fs file s of
        (Inr r, s1) \<Rightarrow> (Inr r, s1)
      | (Inl e, s1) \<Rightarrow>
          if is_FileNotFoundError e then (Inr None, print ''File not found.'' s1)
          else if is_IOError e then (Inr None, print (''File error: '' @ str_of e) s1)
          else (Inr None, print (''Unexpected error: '' @ str_of e) s1))"

definition schedule_update :: "app \<Rightarrow> app" where
  \<comment> \<open>\<open>root.after(update_interval, update_temperature)\<close>: one more timer.\<close>
  "schedule_update s =
     s\<lparr>timers := timers s @ [(clock s + update_interval s, UpdateTemperature)]\<rparr>"

definition update_temperature :: "fs \<Rightarrow> app \<Rightarrow> (exn + unit) \<times> app" where
  "update_temperature fs s =
     (let file = file_path s in
      if file = [] then
        (Inr (), showerror ''Error'' ''Please select a file first'' s)
      else
        (case read_latest_temperature fs file s of
           (Inl e, s1) \<Rightarrow> (Inl e, s1)
         | (Inr latest_temp, s1) \<Rightarrow>
             (let s2 = (case latest_temp of
                          Some t \<Rightarrow> s1\<lparr>temperature_label_text := format_2f t\<rparr>
                        | None \<Rightarrow>
                            showerror ''Error'' ''Failed to read temperature data.''
                              (s1\<lparr>temperature_label_text := ''--''\<rparr>))
              in (Inr (), schedule_update s2))))"

definition select_file :: "fs \<Rightarrow> string \<Rightarrow> app \<Rightarrow> (exn + unit) \<times> app" where
  \<comment> \<open>\<open>file_selected\<close> is what the file dialog returned: empty when it was cancelled.\<close>
  "select_file fs file_selected s =
     (if file_selected \<noteq> [] then update_temperature fs (s\<lparr>file_path := file_selected\<rparr>)
      else (Inr (), s))"

text \<open>
  The dialog \<open>askinteger\<close> of the toolkit stays open until the user cancels it or
  enters an integer that is not below \<open>minvalue\<close>; it warns and asks again on any
  other entry. The user's successive entries are its input here, and a dialog whose
  entries run out was closed.
\<close>

datatype attempt = Enter int | Invalid | Cancel

fun askinteger :: "int \<Rightarrow> attempt list \<Rightarrow> int option" where
  "askinteger minvalue [] = None"
| "askinteger minvalue (Cancel # rest) = None"
| "askinteger minvalue (Invalid # rest) = askinteger minvalue rest"
| "askinteger minvalue (Enter n # rest) =
     (if n < minvalue then askinteger minvalue rest else Some n)"

definition change_font_size :: "attempt list \<Rightarrow> app \<Rightarrow> app" where
  "change_font_size entries s =
     (case askinteger 1 entries of
        Some new_size \<Rightarrow>
          s\<lparr>font_size := new_size, temperature_label_font := (''Helvetica'', new_size)\<rparr>
      | None \<Rightarrow> s)"

definition change_bg_color :: "string option \<Rightarrow> app \<Rightarrow> app" where
  \<comment> \<open>\<open>color\<close> is what \<open>askstring\<close> returned: \<open>None\<close> when the dialog was cancelled.\<close>
  "change_bg_color color s =
     (case color of
        None \<Rightarrow> s
      | Some c \<Rightarrow>
          if c \<noteq> [] then
            s\<lparr>bg_color := c, temperature_label_bg := Some c, root_bg := Some c\<rparr>
          else s)"

subsection \<open>The event loop\<close>

text \<open>
  What the event loop does, one event at a time: a menu command, time passing, or the
  oldest timer firing once it is due (all timers have the same delay, so the oldest is
  the first due). An exception that leaves a callback is reported by the toolkit and
  the loop goes on with the state the callback left.
\<close>

datatype event =
    SelectFile string
  | MenuUpdate
  | ChangeFontSize "attempt list"
  | ChangeBgColor "string option"
  | Wait nat
  | TimerFires

definition fire_timer :: "fs \<Rightarrow> app \<Rightarrow> app" where
  "fire_timer fs s =
     (case timers s of
        [] \<Rightarrow> s
      | (due, cb) # rest \<Rightarrow>
          if due \<le> clock s then
            (case cb of
               UpdateTemperature \<Rightarrow> snd (update_temperature fs (s\<lparr>timers := rest\<rparr>)))
          else s)"

fun step :: "fs \<Rightarrow> event \<Rightarrow> app \<Rightarrow> app" where
  "step fs (SelectFile file_selected) s = snd (select_file fs file_selected s)"
| "step fs MenuUpdate s = snd (update_temperature fs s)"
| "step fs (ChangeFontSize entries) s = change_font_size entries s"
| "step fs (ChangeBgColor color) s = change_bg_color color s"
| "step fs (Wait d) s = s\<lparr>clock := clock s + d\<rparr>"
| "step fs TimerFires s = fire_timer fs s"

fun run :: "(fs \<times> event) list \<Rightarrow> app \<Rightarrow> app" where
  \<comment> \<open>Each event comes with the file system as it is when the event is handled.\<close>
  "run [] s = s"
| "run ((fs, ev) # evs) s = run evs (step fs ev s)"

subsection \<open>Notation and sample files\<close>

abbreviation latest_parts :: "string \<Rightarrow> string list" where
  \<comment> \<open>\<open>lines[-1].strip().split(';')\<close> for the text of a file.\<close>
  "latest_parts content \<equiv> py_split (CHR '';'') (py_strip (last (py_readlines content)))"

definition example_fs :: fs where
  \<comment> \<open>A directory with a few small files, for concrete runs.\<close>
  "example_fs path =
     (if path = ''log.txt'' then
        Inr (''2024-10-20;11:57:00;10.0'' @ [CHR 0x0A] @ ''2024-10-20;12:00:00;20.5'' @ [CHR 0x0A])
      else if path = ''sample.txt'' then Inr ''a;b;12.34''
      else if path = ''short.txt'' then Inr ''a;b''
      else if path = ''blank.txt'' then Inr (''a;b;1.5'' @ [CHR 0x0A] @ ''   '' @ [CHR 0x0A])
      else if path = ''words.txt'' then Inr ''a;b;xyz''
      else if path = ''empty.txt'' then Inr []
      else if path = ''locked.txt'' then Inl (OSError ''[Errno 13] Permission denied'')
      else if path = ''binary.txt'' then Inl (ValueError ''invalid start byte'')
      else Inl (FileNotFoundError ''[Errno 2] No such file or directory''))"

section \<open>The parser returns in every case\<close>

lemma py_float_raises: "py_float x = Inl e \<Longrightarrow> is_ValueError e"
  unfolding py_float_def by (auto split: option.splits)

lemma rlt_not_found:
  "fs file = Inl (FileNotFoundError m) \<Longrightarrow>
   read_latest_temperature fs file s = (Inr None, print ''File not found.'' s)"
  by (simp add: read_latest_temperature_def read_body_def)

lemma rlt_io_error:
  "fs file = Inl (OSError m) \<Longrightarrow>
   read_latest_temperature fs file s = (Inr None, print (''File error: '' @ m) s)"
  by (simp add: read_latest_temperature_def read_body_def)

lemma rlt_value_error:
  "fs file = Inl (ValueError m) \<Longrightarrow>
   read_latest_temperature fs file s = (Inr None, print (''Unexpected error: '' @ m) s)"
  by (simp add: read_latest_temperature_def read_body_def)

lemma rlt_exception:
  "fs file = Inl (Exception m) \<Longrightarrow>
   read_latest_temperature fs file s = (Inr None, print (''Unexpected error: '' @ m) s)"
  by (simp add: read_latest_temperature_def read_body_def)

lemma rlt_empty:
  "fs file = Inr content \<Longrightarrow> py_readlines content = [] \<Longrightarrow>
   read_latest_temperature fs file s =
     (Inr None, print ''No valid lines found in the file.'' s)"
  by (simp add: read_latest_temperature_def read_body_def)

lemma rlt_malformed:
  "fs file = Inr content \<Longrightarrow> py_readlines content \<noteq> [] \<Longrightarrow>
   length (latest_parts content) \<noteq> 3 \<Longrightarrow>
   read_latest_temperature fs file s =
     (Inr None, print ''No valid lines found in the file.'' s)"
  by (simp add: read_latest_temperature_def read_body_def Let_def)

lemma rlt_invalid:
  assumes "fs file = Inr content" and "py_readlines content \<noteq> []"
    and "length (latest_parts content) = 3"
    and "py_float (latest_parts content ! 2) = Inl e"
  shows "read_latest_temperature fs file s =
     (Inr None, print (''Invalid temperature value: '' @ latest_parts content ! 2) s)"
proof -
  have "is_ValueError e" using assms(4) by (rule py_float_raises)
  then show ?thesis using assms
    by (simp add: read_latest_temperature_def read_body_def Let_def)
qed

lemma rlt_ok:
  "fs file = Inr content \<Longrightarrow> py_readlines content \<noteq> [] \<Longrightarrow>
   length (latest_parts content) = 3 \<Longrightarrow>
   py_float (latest_parts content ! 2) = Inr v \<Longrightarrow>
   read_latest_temperature fs file s = (Inr (Some v), s)"
  by (simp add: read_latest_temperature_def read_body_def Let_def)

text \<open>
  A call either returns a number and leaves the state alone, or returns \<open>None\<close> and
  prints one line; which of the two, and which number or line, does not depend on the
  state.
\<close>

lemma rlt_shape:
  "(\<exists>v. \<forall>s. read_latest_temperature fs file s = (Inr (Some v), s)) \<or>
   (\<exists>l. \<forall>s. read_latest_temperature fs file s = (Inr None, print l s))"
proof (cases "fs file")
  case (Inl e)
  then show ?thesis
    by (cases e) (auto simp add: rlt_not_found rlt_io_error rlt_value_error rlt_exception)
next
  case (Inr content)
  show ?thesis
  proof (cases "py_readlines content = []")
    case True
    with Inr show ?thesis by (auto simp add: rlt_empty)
  next
    case lines: False
    show ?thesis
    proof (cases "length (latest_parts content) = 3")
      case False
      with Inr lines show ?thesis by (auto simp add: rlt_malformed)
    next
      case True
      show ?thesis
      proof (cases "py_float (latest_parts content ! 2)")
        case (Inl e)
        with Inr lines True show ?thesis by (auto simp add: rlt_invalid)
      next
        case r: (Inr v)
        with Inr lines True show ?thesis by (auto simp add: rlt_ok)
      qed
    qed
  qed
qed

lemma rlt_returns: "\<exists>r. fst (read_latest_temperature fs file s) = Inr r"
  using rlt_shape [of fs "file"] by auto

lemma rlt_result_indep:
  "fst (read_latest_temperature fs file s) = fst (read_latest_temperature fs file s')"
  using rlt_shape [of fs "file"] by auto

lemma rlt_stdout:
  "\<exists>out. snd (read_latest_temperature fs file s) = s\<lparr>stdout := stdout s @ out\<rparr>"
proof -
  have "s = s\<lparr>stdout := stdout s @ []\<rparr>" by simp
  moreover have "\<And>l. print l s = s\<lparr>stdout := stdout s @ [l]\<rparr>" by (simp add: print_def)
  ultimately show ?thesis using rlt_shape [of fs "file"] by (metis snd_conv)
qed

lemma rlt_raised: "fs file = Inl e \<Longrightarrow> fst (read_latest_temperature fs file s) = Inr None"
  by (cases e) (simp_all add: rlt_not_found rlt_io_error rlt_value_error rlt_exception)

lemma example_files:
  "example_fs ''sample.txt'' = Inr ''a;b;12.34''"
  "example_fs ''short.txt'' = Inr ''a;b''"
  "example_fs ''blank.txt'' = Inr (''a;b;1.5'' @ [CHR 0x0A] @ ''   '' @ [CHR 0x0A])"
  "example_fs ''words.txt'' = Inr ''a;b;xyz''"
  "example_fs ''empty.txt'' = Inr []"
  "example_fs ''locked.txt'' = Inl (OSError ''[Errno 13] Permission denied'')"
  "example_fs ''missing.txt'' = Inl (FileNotFoundError ''[Errno 2] No such file or directory'')"
  by (simp_all add: example_fs_def)

text \<open>
  C9: \<open>read_latest_temperature\<close> never lets an exception out. For every file system,
  path and state it returns a number or \<open>None\<close>; whenever opening or reading the file
  raises, whatever the exception, the value returned is \<open>None\<close>.
\<close>

theorem read_latest_temperature_total:
  "((\<exists>v. fst (read_latest_temperature fs file s) = Inr (Some v)) \<or>
    fst (read_latest_temperature fs file s) = Inr None) \<and>
   (\<forall>e. fs file = Inl e \<longrightarrow> fst (read_latest_temperature fs file s) = Inr None)"
proof -
  obtain r where "fst (read_latest_temperature fs file s) = Inr r"
    using rlt_returns by blast
  then have "(\<exists>v. fst (read_latest_temperature fs file s) = Inr (Some v)) \<or>
    fst (read_latest_temperature fs file s) = Inr None"
    by (cases r) simp_all
  then show ?thesis using rlt_raised by blast
qed

theorem read_latest_temperature_total_witness:
  "example_fs ''binary.txt'' = Inl (ValueError ''invalid start byte'') \<and>
   fst (read_latest_temperature example_fs ''binary.txt'' init) = Inr None"
proof -
  have raised: "example_fs ''binary.txt'' = Inl (ValueError ''invalid start byte'')"
    by (simp add: example_fs_def)
  with read_latest_temperature_total [of example_fs "''binary.txt''" init]
  show ?thesis by blast
qed

text \<open>
  C6: calling \<open>read_latest_temperature\<close> twice on the same path, the file system
  unchanged, gives the same result both times, and after either call the state of the
  program is what it was before the first one, the lines printed apart.
\<close>

theorem read_latest_temperature_repeatable:
  "fst (read_latest_temperature fs file (snd (read_latest_temperature fs file s))) =
     fst (read_latest_temperature fs file s) \<and>
   (snd (read_latest_temperature fs file s))\<lparr>stdout := stdout s\<rparr> = s \<and>
   (snd (read_latest_temperature fs file (snd (read_latest_temperature fs file s))))
     \<lparr>stdout := stdout s\<rparr> = s"
proof -
  obtain out where one: "snd (read_latest_temperature fs file s) = s\<lparr>stdout := stdout s @ out\<rparr>"
    using rlt_stdout by blast
  obtain out' where two:
    "snd (read_latest_temperature fs file (s\<lparr>stdout := stdout s @ out\<rparr>)) =
       s\<lparr>stdout := stdout s @ out @ out'\<rparr>"
    using rlt_stdout [of fs "file" "s\<lparr>stdout := stdout s @ out\<rparr>"] by auto
  have "fst (read_latest_temperature fs file (snd (read_latest_temperature fs file s))) =
     fst (read_latest_temperature fs file s)"
    by (rule rlt_result_indep)
  then show ?thesis by (simp add: one two)
qed

theorem read_latest_temperature_repeatable_witness:
  "fst (read_latest_temperature example_fs ''missing.txt''
          (snd (read_latest_temperature example_fs ''missing.txt'' init))) = Inr None \<and>
   fst (read_latest_temperature example_fs ''missing.txt'' init) = Inr None \<and>
   (snd (read_latest_temperature example_fs ''missing.txt'' init))\<lparr>stdout := []\<rparr> = init"
  using read_latest_temperature_repeatable [of example_fs "''missing.txt''" init]
  by (simp add: rlt_raised example_files init_def)

section \<open>Sample files and sample numbers\<close>

lemma py_split_blank: "py_split sep [] = [[]]"
  by (simp add: py_split_def)

lemma lines_from_empty_iff: "lines_from cur xs = [] \<longleftrightarrow> cur = [] \<and> xs = []"
  by (induction xs arbitrary: cur) auto

lemma universal_newlines_empty_iff: "universal_newlines xs = [] \<longleftrightarrow> xs = []"
  by (cases xs) auto

lemma py_readlines_empty_iff: "py_readlines content = [] \<longleftrightarrow> content = []"
  by (simp add: py_readlines_def lines_from_empty_iff universal_newlines_empty_iff)

text \<open>
  The number read from \<open>20.5\<close> is exactly 20.5, and the one read from \<open>12.34\<close> lies
  within half a unit in the last place of 12.34.
\<close>

lemma floor_log2_20_5: "floor_log2 205 10 = 4"
  by (simp add: floor_log2_def bitlen.simps Let_def)

lemma to_double_20_5: "to_double False 205 (- 1) = Finite False 5770237022568448 (- 48)"
  using floor_log2_20_5 by (simp add: to_double_def round_half_even_def Let_def)

lemma double_20_5_exact: "2 * 5770237022568448 = 41 * (2::nat) ^ 48"
  by simp

lemma py_float_20_5: "py_float ''20.5'' = Inr (Finite False 5770237022568448 (- 48))"
proof -
  have "remove_underscores (CHR 0x00) (transform_decimal_and_space ''20.5'') = Some ''20.5''"
    by code_simp
  moreover have "rev (dropWhile is_ascii_space (rev (dropWhile is_ascii_space ''20.5''))) = ''20.5''"
    by code_simp
  moreover have "parse_decimal ''20.5'' = Some (205, - 1)"
    by code_simp
  ultimately show ?thesis
    by (simp add: py_float_def string_to_double_def parse_sign_def to_double_20_5)
qed

lemma floor_log2_12_34: "floor_log2 1234 100 = 3"
  by (simp add: floor_log2_def bitlen.simps Let_def)

lemma to_double_12_34: "to_double False 1234 (- 2) = Finite False 6946802425218990 (- 49)"
  using floor_log2_12_34 by (simp add: to_double_def round_half_even_def Let_def)

lemma double_12_34_nearest: "\<bar>100 * 6946802425218990 - 1234 * (2::int) ^ 49\<bar> \<le> 50"
  by simp

lemma py_float_12_34: "py_float ''12.34'' = Inr (to_double False 1234 (- 2))"
proof -
  have "remove_underscores (CHR 0x00) (transform_decimal_and_space ''12.34'') = Some ''12.34''"
    by code_simp
  moreover have "rev (dropWhile is_ascii_space (rev (dropWhile is_ascii_space ''12.34''))) = ''12.34''"
    by code_simp
  moreover have "parse_decimal ''12.34'' = Some (1234, - 2)"
    by code_simp
  ultimately show ?thesis
    by (simp add: py_float_def string_to_double_def parse_sign_def)
qed

lemma split_a_b_12_34: "py_split (CHR '';'') ''a;b;12.34'' = [''a'', ''b'', ''12.34'']"
  by code_simp

lemma digit_chars:
  "digit_char 0 = CHR ''0''" "digit_char 1 = CHR ''1''" "digit_char 2 = CHR ''2''"
  "digit_char 3 = CHR ''3''" "digit_char 4 = CHR ''4''" "digit_char 5 = CHR ''5''"
  "digit_char 6 = CHR ''6''" "digit_char 7 = CHR ''7''" "digit_char 8 = CHR ''8''"
  "digit_char 9 = CHR ''9''"
  by (simp_all add: digit_char_def char_of_eq_iff)

lemma format_2f_20_5: "format_2f (Finite False 5770237022568448 (- 48)) = ''20.50''"
  by (simp add: format_2f_def round_half_even_def show_nat.simps digit_chars Let_def)

lemma is_digit_digit_char: "d < 10 \<Longrightarrow> is_digit (digit_char d)"
  by (simp add: is_digit_def digit_char_def)

lemma format_2f_two_decimals:
  "\<exists>whole d1 d2. format_2f (Finite neg m e) = whole @ [CHR ''.'', d1, d2] \<and>
     is_digit d1 \<and> is_digit d2"
proof -
  define q where "q = (if 0 \<le> e then m * 2 ^ nat e * 100
                    else round_half_even (m * 100) (2 ^ nat (- e)))"
  have "format_2f (Finite neg m e) =
      ((if neg then ''-'' else []) @ show_nat (q div 100)) @
      [CHR ''.'', digit_char (q mod 100 div 10), digit_char (q mod 10)]"
    by (simp add: format_2f_def q_def Let_def)
  moreover have "is_digit (digit_char (q mod 100 div 10))" "is_digit (digit_char (q mod 10))"
    by (simp_all add: is_digit_digit_char)
  ultimately show ?thesis by blast
qed

lemma log_txt_reading:
  "read_latest_temperature example_fs ''log.txt'' s =
     (Inr (Some (Finite False 5770237022568448 (- 48))), s)"
proof -
  let ?log = "''2024-10-20;11:57:00;10.0'' @ [CHR 0x0A] @ ''2024-10-20;12:00:00;20.5'' @ [CHR 0x0A]"
  have opened: "example_fs ''log.txt'' = Inr ?log"
    by (simp add: example_fs_def)
  have lines: "py_readlines ?log \<noteq> []"
    and parts: "latest_parts ?log = [''2024-10-20'', ''12:00:00'', ''20.5'']"
    by code_simp+
  have len: "length (latest_parts ?log) = 3"
    by (simp only: parts) simp
  have num: "py_float (latest_parts ?log ! 2) = Inr (Finite False 5770237022568448 (- 48))"
    by (simp only: parts) (simp add: py_float_20_5)
  show ?thesis
    by (rule rlt_ok [of example_fs "''log.txt''", OF opened lines len num])
qed

section \<open>Failures of the parser\<close>

text \<open>
  C2: the parser has one failure value. Whatever goes wrong it returns \<open>None\<close>; the
  kinds of failure differ only in the line printed: a missing file, an unreadable file
  (with the description of the error) and a third field that is not a number (with the
  field) each have their own line, while a file without lines and a last line without
  exactly three fields print the same one.
\<close>

theorem read_latest_temperature_failures_print:
  "(fs file = Inl (FileNotFoundError m) \<longrightarrow>
      read_latest_temperature fs file s = (Inr None, print ''File not found.'' s)) \<and>
   (fs file = Inl (OSError m) \<longrightarrow>
      read_latest_temperature fs file s = (Inr None, print (''File error: '' @ m) s)) \<and>
   (fs file = Inr content \<and> py_readlines content = [] \<longrightarrow>
      read_latest_temperature fs file s =
        (Inr None, print ''No valid lines found in the file.'' s)) \<and>
   (fs file = Inr content \<and> py_readlines content \<noteq> [] \<and>
    length (latest_parts content) \<noteq> 3 \<longrightarrow>
      read_latest_temperature fs file s =
        (Inr None, print ''No valid lines found in the file.'' s)) \<and>
   (fs file = Inr content \<and> py_readlines content \<noteq> [] \<and>
    length (latest_parts content) = 3 \<and> py_float (latest_parts content ! 2) = Inl e \<longrightarrow>
      read_latest_temperature fs file s =
        (Inr None, print (''Invalid temperature value: '' @ latest_parts content ! 2) s))"
  using rlt_not_found [of fs "file" m s] rlt_io_error [of fs "file" m s]
    rlt_empty [of fs "file" content s] rlt_malformed [of fs "file" content s]
    rlt_invalid [of fs "file" content e s]
  by blast

theorem read_latest_temperature_failures_print_witness:
  "read_latest_temperature example_fs ''missing.txt'' init =
     (Inr None, print ''File not found.'' init) \<and>
   read_latest_temperature example_fs ''locked.txt'' init =
     (Inr None, print ''File error: [Errno 13] Permission denied'' init) \<and>
   read_latest_temperature example_fs ''empty.txt'' init =
     (Inr None, print ''No valid lines found in the file.'' init) \<and>
   read_latest_temperature example_fs ''short.txt'' init =
     (Inr None, print ''No valid lines found in the file.'' init) \<and>
   read_latest_temperature example_fs ''words.txt'' init =
     (Inr None, print ''Invalid temperature value: xyz'' init)"
proof -
  have empty: "py_readlines [] = []"
    by code_simp
  have short: "py_readlines ''a;b'' \<noteq> []" "length (latest_parts ''a;b'') \<noteq> 3"
    by code_simp+
  have words: "py_readlines ''a;b;xyz'' \<noteq> []" "length (latest_parts ''a;b;xyz'') = 3"
    "py_float (latest_parts ''a;b;xyz'' ! 2) = Inl (ValueError ''could not convert string to float'')"
    "''Invalid temperature value: '' @ latest_parts ''a;b;xyz'' ! 2 = ''Invalid temperature value: xyz''"
    by code_simp+
  have "read_latest_temperature example_fs ''missing.txt'' init =
     (Inr None, print ''File not found.'' init)"
    using read_latest_temperature_failures_print
            [of example_fs "''missing.txt''" "''[Errno 2] No such file or directory''" init]
          example_files(7)
    by blast
  moreover have "read_latest_temperature example_fs ''locked.txt'' init =
     (Inr None, print (''File error: '' @ ''[Errno 13] Permission denied'') init)"
    using read_latest_temperature_failures_print
            [of example_fs "''locked.txt''" "''[Errno 13] Permission denied''" init]
          example_files(6)
    by blast
  moreover have "read_latest_temperature example_fs ''empty.txt'' init =
     (Inr None, print ''No valid lines found in the file.'' init)"
    using read_latest_temperature_failures_print [of example_fs "''empty.txt''" _ init "[]"]
          example_files(5) empty
    by blast
  moreover have "read_latest_temperature example_fs ''short.txt'' init =
     (Inr None, print ''No valid lines found in the file.'' init)"
    using read_latest_temperature_failures_print [of example_fs "''short.txt''" _ init "''a;b''"]
          example_files(2) short
    by blast
  moreover have "read_latest_temperature example_fs ''words.txt'' init =
     (Inr None, print (''Invalid temperature value: '' @ latest_parts ''a;b;xyz'' ! 2) init)"
    using read_latest_temperature_failures_print
            [of example_fs "''words.txt''" _ init "''a;b;xyz''"
                "ValueError ''could not convert string to float''"]
          example_files(4) words(1,2,3)
    by blast
  ultimately show ?thesis by (simp only: words(4)) simp
qed

text \<open>
  Five failures of five kinds, and one value returned: the value does not tell the
  kinds apart.
\<close>

theorem read_latest_temperature_one_failure_value_counterexample:
  "fst (read_latest_temperature example_fs ''missing.txt'' init) = Inr None \<and>
   fst (read_latest_temperature example_fs ''locked.txt'' init) = Inr None \<and>
   fst (read_latest_temperature example_fs ''empty.txt'' init) = Inr None \<and>
   fst (read_latest_temperature example_fs ''short.txt'' init) = Inr None \<and>
   fst (read_latest_temperature example_fs ''words.txt'' init) = Inr None"
proof -
  have empty: "py_readlines [] = []"
    by code_simp
  have short: "py_readlines ''a;b'' \<noteq> []" "length (latest_parts ''a;b'') \<noteq> 3"
    by code_simp+
  have words: "py_readlines ''a;b;xyz'' \<noteq> []" "length (latest_parts ''a;b;xyz'') = 3"
    "py_float (latest_parts ''a;b;xyz'' ! 2) = Inl (ValueError ''could not convert string to float'')"
    by code_simp+
  have "fst (read_latest_temperature example_fs ''empty.txt'' init) = Inr None"
    by (simp only: rlt_empty [of example_fs "''empty.txt''", OF example_files(5) empty] fst_conv)
  moreover have "fst (read_latest_temperature example_fs ''short.txt'' init) = Inr None"
    by (simp only: rlt_malformed [of example_fs "''short.txt''", OF example_files(2) short] fst_conv)
  moreover have "fst (read_latest_temperature example_fs ''words.txt'' init) = Inr None"
    by (simp only: rlt_invalid [of example_fs "''words.txt''", OF example_files(4) words] fst_conv)
  ultimately show ?thesis by (simp add: rlt_raised example_files)
qed

text \<open>
  C5: when the file can be read and has a line, and its last line, stripped, does not
  split on \<open>;\<close> into exactly three fields, the parser fails: it returns \<open>None\<close>
  through the branch that prints \<open>No valid lines found in the file.\<close> A last line that
  is empty once stripped splits into one empty field and fails in this way.
\<close>

theorem read_latest_temperature_malformed_line:
  "(fs file = Inr content \<and> py_readlines content \<noteq> [] \<and>
    length (latest_parts content) \<noteq> 3 \<longrightarrow>
      read_latest_temperature fs file s =
        (Inr None, print ''No valid lines found in the file.'' s)) \<and>
   (fs file = Inr content \<and> py_readlines content \<noteq> [] \<and>
    py_strip (last (py_readlines content)) = [] \<longrightarrow>
      latest_parts content = [[]] \<and>
      read_latest_temperature fs file s =
        (Inr None, print ''No valid lines found in the file.'' s))"
proof -
  have "latest_parts content = [[]]" if "py_strip (last (py_readlines content)) = []"
    unfolding that by (rule py_split_blank)
  then show ?thesis using rlt_malformed [of fs "file" content s] by auto
qed

theorem read_latest_temperature_malformed_line_witness:
  "latest_parts ''a;b'' = [''a'', ''b''] \<and>
   read_latest_temperature example_fs ''short.txt'' init =
     (Inr None, print ''No valid lines found in the file.'' init) \<and>
   py_strip (last (py_readlines (''a;b;1.5'' @ [CHR 0x0A] @ ''   '' @ [CHR 0x0A]))) = [] \<and>
   read_latest_temperature example_fs ''blank.txt'' init =
     (Inr None, print ''No valid lines found in the file.'' init)"
proof -
  let ?blank = "''a;b;1.5'' @ [CHR 0x0A] @ ''   '' @ [CHR 0x0A]"
  have short: "py_readlines ''a;b'' \<noteq> []" "length (latest_parts ''a;b'') \<noteq> 3"
    "latest_parts ''a;b'' = [''a'', ''b'']"
    by code_simp+
  have blank: "py_readlines ?blank \<noteq> []" "py_strip (last (py_readlines ?blank)) = []"
    by code_simp+
  show ?thesis
    using read_latest_temperature_malformed_line [of example_fs "''short.txt''" "''a;b''" init]
      read_latest_temperature_malformed_line [of example_fs "''blank.txt''" ?blank init]
      example_files(2,3) short blank
    by blast
qed

section \<open>A number in the last line\<close>

text \<open>
  C3: when the file can be read and has a line, its last line, stripped, splits on
  \<open>;\<close> into exactly three fields and \<open>float\<close> accepts the third, the parser returns
  the number \<open>float\<close> gives, and changes nothing. A last line \<open>a;b;12.34\<close> gives the
  binary64 number nearest to 12.34.
\<close>

theorem read_latest_temperature_returns_number:
  "(fs file = Inr content \<and> py_readlines content \<noteq> [] \<and>
    length (latest_parts content) = 3 \<and> py_float (latest_parts content ! 2) = Inr v \<longrightarrow>
      read_latest_temperature fs file s = (Inr (Some v), s)) \<and>
   (fs file = Inr content \<and> py_readlines content \<noteq> [] \<and>
    py_strip (last (py_readlines content)) = ''a;b;12.34'' \<longrightarrow>
      read_latest_temperature fs file s = (Inr (Some (to_double False 1234 (- 2))), s)) \<and>
   to_double False 1234 (- 2) = Finite False 6946802425218990 (- 49)"
proof -
  have "read_latest_temperature fs file s = (Inr (Some (to_double False 1234 (- 2))), s)"
    if "fs file = Inr content" and "py_readlines content \<noteq> []"
      and "py_strip (last (py_readlines content)) = ''a;b;12.34''"
  proof (rule rlt_ok [of fs "file", OF that(1,2)])
    show "length (latest_parts content) = 3"
      unfolding that(3) split_a_b_12_34 by simp
    show "py_float (latest_parts content ! 2) = Inr (to_double False 1234 (- 2))"
      unfolding that(3) split_a_b_12_34 by (simp add: py_float_12_34)
  qed
  then show ?thesis using rlt_ok [of fs "file" content v s] to_double_12_34 by blast
qed

theorem read_latest_temperature_returns_number_witness:
  "read_latest_temperature example_fs ''sample.txt'' init =
     (Inr (Some (Finite False 6946802425218990 (- 49))), init)"
proof -
  have "py_readlines ''a;b;12.34'' \<noteq> []"
    and "py_strip (last (py_readlines ''a;b;12.34'')) = ''a;b;12.34''"
    by code_simp+
  with example_files(1)
    read_latest_temperature_returns_number
      [of example_fs "''sample.txt''" "''a;b;12.34''" "to_double False 1234 (- 2)" init]
  have "read_latest_temperature example_fs ''sample.txt'' init =
     (Inr (Some (to_double False 1234 (- 2))), init)"
    by blast
  then show ?thesis by (simp only: to_double_12_34)
qed

section \<open>The refresh\<close>

lemma ut_no_path:
  "file_path s = [] \<Longrightarrow>
   update_temperature fs s = (Inr (), showerror ''Error'' ''Please select a file first'' s)"
  by (simp add: update_temperature_def)

lemma ut_some:
  "file_path s \<noteq> [] \<Longrightarrow>
   read_latest_temperature fs (file_path s) s = (Inr (Some v), s1) \<Longrightarrow>
   update_temperature fs s =
     (Inr (), schedule_update (s1\<lparr>temperature_label_text := format_2f v\<rparr>))"
  by (simp add: update_temperature_def)

lemma ut_none:
  "file_path s \<noteq> [] \<Longrightarrow>
   read_latest_temperature fs (file_path s) s = (Inr None, s1) \<Longrightarrow>
   update_temperature fs s =
     (Inr (), schedule_update (showerror ''Error'' ''Failed to read temperature data.''
                (s1\<lparr>temperature_label_text := ''--''\<rparr>)))"
  by (simp add: update_temperature_def)

lemma ut_cases:
  assumes "file_path s \<noteq> []"
  obtains (number) v where "read_latest_temperature fs (file_path s) s = (Inr (Some v), s)"
      and "update_temperature fs s =
             (Inr (), schedule_update (s\<lparr>temperature_label_text := format_2f v\<rparr>))"
    | (nothing) l where "read_latest_temperature fs (file_path s) s = (Inr None, print l s)"
      and "update_temperature fs s =
             (Inr (), schedule_update (showerror ''Error'' ''Failed to read temperature data.''
                ((print l s)\<lparr>temperature_label_text := ''--''\<rparr>)))"
  using rlt_shape [of fs "file_path s"] ut_some [OF assms] ut_none [OF assms] by metis

lemma ut_timers:
  assumes "file_path s \<noteq> []"
  shows "timers (snd (update_temperature fs s)) =
           timers s @ [(clock s + update_interval s, UpdateTemperature)]"
  using assms
  by (cases rule: ut_cases [of s fs]) (simp_all add: schedule_update_def showerror_def print_def)

lemma ut_returns: "fst (update_temperature fs s) = Inr ()"
proof (cases "file_path s = []")
  case True
  then show ?thesis by (simp add: ut_no_path)
next
  case False
  then show ?thesis by (cases rule: ut_cases [of s fs]) simp_all
qed

lemma ut_label:
  assumes "file_path s \<noteq> []"
  shows "temperature_label_text (snd (update_temperature fs s)) =
           (case fst (read_latest_temperature fs (file_path s) s') of
              Inr (Some t) \<Rightarrow> format_2f t
            | _ \<Rightarrow> ''--'')"
proof -
  have eq: "fst (read_latest_temperature fs (file_path s) s') =
            fst (read_latest_temperature fs (file_path s) s)"
    by (rule rlt_result_indep)
  from assms show ?thesis unfolding eq
    by (cases rule: ut_cases [of s fs])
       (simp_all add: schedule_update_def showerror_def print_def)
qed

lemma ut_keeps:
  "file_path (snd (update_temperature fs s)) = file_path s \<and>
   font_size (snd (update_temperature fs s)) = font_size s \<and>
   update_interval (snd (update_temperature fs s)) = update_interval s \<and>
   clock (snd (update_temperature fs s)) = clock s"
proof (cases "file_path s = []")
  case True
  then show ?thesis by (simp add: ut_no_path showerror_def)
next
  case False
  then show ?thesis
    by (cases rule: ut_cases [of s fs])
       (simp_all add: schedule_update_def showerror_def print_def)
qed

text \<open>
  C1: a refresh with a path set arms exactly one new timer, due \<open>update_interval\<close>
  after the present time, whether the parser returned a number or \<open>None\<close>. A refresh
  with no path set shows the error box and returns before the timer is armed: the
  timers are what they were.
\<close>

theorem update_temperature_rearms_when_path_set:
  "(file_path s \<noteq> [] \<longrightarrow>
      fst (update_temperature fs s) = Inr () \<and>
      timers (snd (update_temperature fs s)) =
        timers s @ [(clock s + update_interval s, UpdateTemperature)]) \<and>
   (file_path s = [] \<longrightarrow>
      update_temperature fs s =
        (Inr (), showerror ''Error'' ''Please select a file first'' s) \<and>
      timers (snd (update_temperature fs s)) = timers s)"
  by (simp add: ut_timers ut_returns ut_no_path showerror_def)

theorem update_temperature_rearms_when_path_set_witness:
  "file_path (init\<lparr>file_path := ''log.txt''\<rparr>) \<noteq> [] \<and>
   timers (snd (update_temperature example_fs (init\<lparr>file_path := ''log.txt''\<rparr>))) =
     [(180000, UpdateTemperature)] \<and>
   file_path init = [] \<and>
   timers (snd (update_temperature example_fs init)) = timers init"
  using update_temperature_rearms_when_path_set [of "init\<lparr>file_path := ''log.txt''\<rparr>" example_fs]
        update_temperature_rearms_when_path_set [of init example_fs]
  by (simp add: init_def showerror_def)

text \<open>
  In the initial state no path is set, and a refresh leaves no timer armed.
\<close>

theorem update_temperature_no_path_counterexample:
  "file_path init = [] \<and> timers (snd (update_temperature example_fs init)) = []"
  by (simp add: ut_no_path init_def showerror_def)

subsection \<open>The last line of the file\<close>

lemma universal_newlines_no_cr: "CHR 0x0D \<notin> set xs \<Longrightarrow> universal_newlines xs = xs"
  by (induction xs) auto

lemma universal_newlines_before_lf:
  "\<exists>u. universal_newlines (p @ CHR 0x0A # xs) = u @ CHR 0x0A # universal_newlines xs"
proof (induction p rule: universal_newlines.induct)
  case 1
  show ?case by (rule exI [of _ "[]"]) simp
next
  case (2 c cs)
  show ?case
  proof (cases "c = CHR 0x0D")
    case False
    from "2.IH"(3) [OF False] obtain u where
      u: "universal_newlines (cs @ CHR 0x0A # xs) = u @ CHR 0x0A # universal_newlines xs" ..
    have "universal_newlines ((c # cs) @ CHR 0x0A # xs) = (c # u) @ CHR 0x0A # universal_newlines xs"
      using False u by simp
    then show ?thesis ..
  next
    case cr: True
    show ?thesis
    proof (cases cs)
      case Nil
      have "universal_newlines ((c # cs) @ CHR 0x0A # xs) = [] @ CHR 0x0A # universal_newlines xs"
        using cr Nil by simp
      then show ?thesis ..
    next
      case (Cons d ds)
      show ?thesis
      proof (cases "d = CHR 0x0A")
        case True
        from "2.IH"(1) [OF cr _ True] Cons obtain u where
          u: "universal_newlines (ds @ CHR 0x0A # xs) = u @ CHR 0x0A # universal_newlines xs"
          by auto
        have "universal_newlines ((c # cs) @ CHR 0x0A # xs) =
              (CHR 0x0A # u) @ CHR 0x0A # universal_newlines xs"
          using cr Cons True u by simp
        then show ?thesis ..
      next
        case False
        from "2.IH"(2) [OF cr _ False] Cons obtain u where
          u: "universal_newlines (cs @ CHR 0x0A # xs) = u @ CHR 0x0A # universal_newlines xs"
          by auto
        have "universal_newlines ((c # cs) @ CHR 0x0A # xs) =
              (CHR 0x0A # u) @ CHR 0x0A # universal_newlines xs"
          using cr Cons False u by simp
        then show ?thesis ..
      qed
    qed
  qed
qed

lemma lines_from_no_lf:
  "CHR 0x0A \<notin> set xs \<Longrightarrow> cur @ xs \<noteq> [] \<Longrightarrow> lines_from cur xs = [cur @ xs]"
  by (induction xs arbitrary: cur) auto

lemma lines_from_final_lf:
  "CHR 0x0A \<notin> set xs \<Longrightarrow> lines_from cur (xs @ [CHR 0x0A]) = [cur @ xs @ [CHR 0x0A]]"
  by (induction xs arbitrary: cur) auto

lemma lines_from_before_lf:
  "\<exists>ls. lines_from cur (u @ CHR 0x0A # xs) = ls @ lines_from [] xs"
proof (induction u arbitrary: cur)
  case Nil
  show ?case by (rule exI [of _ "[cur @ [CHR 0x0A]]"]) simp
next
  case (Cons c u)
  show ?case
  proof (cases "c = CHR 0x0A")
    case True
    obtain ls where "lines_from [] (u @ CHR 0x0A # xs) = ls @ lines_from [] xs"
      using Cons by blast
    with True show ?thesis by (auto intro: exI [of _ "(cur @ [c]) # ls"])
  next
    case False
    obtain ls where "lines_from (cur @ [c]) (u @ CHR 0x0A # xs) = ls @ lines_from [] xs"
      using Cons by blast
    with False show ?thesis by (auto intro: exI [of _ ls])
  qed
qed

lemma readlines_last_line:
  assumes "CHR 0x0A \<notin> set l" and "CHR 0x0D \<notin> set l" and "l \<noteq> []"
    and "nl = [] \<or> nl = [CHR 0x0A]"
  shows "py_readlines (p @ CHR 0x0A # l @ nl) \<noteq> [] \<and>
         last (py_readlines (p @ CHR 0x0A # l @ nl)) = l @ nl"
proof -
  have "CHR 0x0D \<notin> set (l @ nl)" using assms by auto
  then have un: "universal_newlines (l @ nl) = l @ nl" by (rule universal_newlines_no_cr)
  obtain u where "universal_newlines (p @ CHR 0x0A # l @ nl) = u @ CHR 0x0A # l @ nl"
    using universal_newlines_before_lf [of p "l @ nl"] un by auto
  moreover obtain ls where "lines_from [] (u @ CHR 0x0A # l @ nl) = ls @ lines_from [] (l @ nl)"
    using lines_from_before_lf by blast
  moreover have "lines_from [] (l @ nl) = [l @ nl]"
    using assms lines_from_no_lf [of l "[]"] lines_from_final_lf [of l "[]"] by auto
  ultimately show ?thesis by (simp add: py_readlines_def)
qed

lemma split_from_no_sep: "sep \<notin> set xs \<Longrightarrow> split_from sep field xs = [field @ xs]"
  by (induction xs arbitrary: field) auto

lemma split_from_at_sep:
  "sep \<notin> set xs \<Longrightarrow> split_from sep field (xs @ sep # rest) = (field @ xs) # split_from sep [] rest"
  by (induction xs arbitrary: field) auto

lemma py_split_three:
  "sep \<notin> set x \<Longrightarrow> sep \<notin> set y \<Longrightarrow> sep \<notin> set z \<Longrightarrow>
   py_split sep (x @ sep # y @ sep # z) = [x, y, z]"
  by (simp add: py_split_def split_from_at_sep split_from_no_sep)

lemma dropWhile_stops: "\<not> P x \<Longrightarrow> dropWhile P (xs @ x # r) = dropWhile P xs @ x # r"
  by (induction xs) auto

lemma py_strip_line:
  assumes "\<not> isspace x" and "\<not> isspace y" and "nl = [] \<or> nl = [CHR 0x0A]"
  shows "py_strip (c @ x # r @ y # nl) = dropWhile isspace c @ x # r @ [y]"
proof -
  have "isspace (CHR 0x0A)" by (simp add: isspace_def)
  then have "dropWhile isspace (rev nl @ y # rev r @ x # rev (dropWhile isspace c)) =
        y # rev r @ x # rev (dropWhile isspace c)"
    using assms by auto
  then show ?thesis using assms(1) by (simp add: py_strip_def dropWhile_stops)
qed

text \<open>
  C4: with the path set to a file of two lines, the first ending in \<open>;10.0\<close> and the
  second in \<open>;20.5\<close>, a refresh sets the label to \<open>20.50\<close>. The fields before the
  numbers are arbitrary (those of the second line without \<open>;\<close> and line ends), and the
  file may end with a line feed or not.
\<close>

theorem refresh_shows_last_line:
  assumes "file_path s \<noteq> []"
    and "fs (file_path s) =
           Inr (a @ '';'' @ b @ '';10.0'' @ [CHR 0x0A] @ c @ '';'' @ d @ '';20.5'' @ nl)"
    and "nl = [] \<or> nl = [CHR 0x0A]"
    and "set (c @ d) \<inter> {CHR '';'', CHR 0x0A, CHR 0x0D} = {}"
  shows "temperature_label_text (snd (update_temperature fs s)) = ''20.50''"
proof -
  let ?l = "c @ CHR '';'' # (d @ '';20.'') @ CHR ''5'' # []"
  let ?content = "a @ '';'' @ b @ '';10.0'' @ [CHR 0x0A] @ c @ '';'' @ d @ '';20.5'' @ nl"
  have content: "?content = (a @ '';'' @ b @ '';10.0'') @ CHR 0x0A # ?l @ nl" by simp
  have "CHR 0x0A \<notin> set ?l" "CHR 0x0D \<notin> set ?l" "?l \<noteq> []" using assms(4) by auto
  from readlines_last_line [OF this assms(3), of "a @ '';'' @ b @ '';10.0''"]
  have lines: "py_readlines ?content \<noteq> []" and last: "last (py_readlines ?content) = ?l @ nl"
    unfolding content by simp_all
  have "\<not> isspace (CHR '';'')" "\<not> isspace (CHR ''5'')" by (simp_all add: isspace_def)
  from py_strip_line [OF this assms(3), of c "d @ '';20.''"]
  have strip: "py_strip (?l @ nl) = dropWhile isspace c @ CHR '';'' # d @ CHR '';'' # ''20.5''"
    by simp
  have "CHR '';'' \<notin> set (dropWhile isspace c)" "CHR '';'' \<notin> set d" "CHR '';'' \<notin> set ''20.5''"
    using assms(4) set_dropWhileD [of "CHR '';''" isspace c] by auto
  from py_split_three [OF this]
  have parts: "latest_parts ?content = [dropWhile isspace c, d, ''20.5'']"
    unfolding last strip .
  have len: "length (latest_parts ?content) = 3" unfolding parts by simp
  have num: "py_float (latest_parts ?content ! 2) = Inr (Finite False 5770237022568448 (- 48))"
    unfolding parts by (simp add: py_float_20_5)
  have "read_latest_temperature fs (file_path s) s =
          (Inr (Some (Finite False 5770237022568448 (- 48))), s)"
    by (rule rlt_ok [of fs "file_path s", OF assms(2) lines len num])
  from ut_some [OF assms(1) this] show ?thesis
    by (simp add: schedule_update_def format_2f_20_5)
qed

theorem refresh_shows_last_line_witness:
  "temperature_label_text
     (snd (update_temperature example_fs (init\<lparr>file_path := ''log.txt''\<rparr>))) = ''20.50''"
proof -
  have "example_fs (file_path (init\<lparr>file_path := ''log.txt''\<rparr>)) =
          Inr (''2024-10-20'' @ '';'' @ ''11:57:00'' @ '';10.0'' @ [CHR 0x0A] @
               ''2024-10-20'' @ '';'' @ ''12:00:00'' @ '';20.5'' @ [CHR 0x0A])"
    by (simp add: example_fs_def)
  then show ?thesis
    using refresh_shows_last_line [where s = "init\<lparr>file_path := ''log.txt''\<rparr>"
        and fs = example_fs and a = "''2024-10-20''" and b = "''11:57:00''"
        and c = "''2024-10-20''" and d = "''12:00:00''" and nl = "[CHR 0x0A]"]
    by simp
qed

section \<open>Selecting a file\<close>

lemma select_file_timers:
  "sel \<noteq> [] \<Longrightarrow>
   timers (snd (select_file fs sel s)) = timers s @ [(clock s + update_interval s, UpdateTemperature)]"
  using ut_timers [of "s\<lparr>file_path := sel\<rparr>" fs] by (simp add: select_file_def)

lemma select_file_path:
  "file_path (snd (select_file fs sel s)) = (if sel \<noteq> [] then sel else file_path s)"
  using ut_keeps [of fs "s\<lparr>file_path := sel\<rparr>"] by (simp add: select_file_def)

lemma select_file_font: "font_size (snd (select_file fs sel s)) = font_size s"
  using ut_keeps [of fs "s\<lparr>file_path := sel\<rparr>"] by (simp add: select_file_def)

lemma ut_display:
  "(file_path (snd (update_temperature fs s)) = file_path s \<and>
    temperature_label_text (snd (update_temperature fs s)) = temperature_label_text s) \<or>
   temperature_label_text (snd (update_temperature fs s)) =
     (case fst (read_latest_temperature fs (file_path (snd (update_temperature fs s))) s') of
        Inr (Some t) \<Rightarrow> format_2f t
      | _ \<Rightarrow> ''--'')"
proof (cases "file_path s = []")
  case True
  then show ?thesis by (simp add: ut_no_path showerror_def)
next
  case False
  from ut_label [OF this, of fs s'] show ?thesis by (simp add: ut_keeps)
qed

lemma fire_timer_display:
  "(file_path (fire_timer fs s) = file_path s \<and>
    temperature_label_text (fire_timer fs s) = temperature_label_text s) \<or>
   temperature_label_text (fire_timer fs s) =
     (case fst (read_latest_temperature fs (file_path (fire_timer fs s)) s') of
        Inr (Some t) \<Rightarrow> format_2f t
      | _ \<Rightarrow> ''--'')"
proof (cases "timers s")
  case Nil
  then show ?thesis by (simp add: fire_timer_def)
next
  case (Cons t rest)
  obtain due cb where t: "t = (due, cb)" by (cases t)
  show ?thesis using Cons t ut_display [of fs "s\<lparr>timers := rest\<rparr>" s']
    by (cases cb) (simp add: fire_timer_def)
qed

lemma select_file_display:
  "(file_path (snd (select_file fs sel s)) = file_path s \<and>
    temperature_label_text (snd (select_file fs sel s)) = temperature_label_text s) \<or>
   temperature_label_text (snd (select_file fs sel s)) =
     (case fst (read_latest_temperature fs (file_path (snd (select_file fs sel s))) s') of
        Inr (Some t) \<Rightarrow> format_2f t
      | _ \<Rightarrow> ''--'')"
proof (cases "sel = []")
  case True
  then show ?thesis by (simp add: select_file_def)
next
  case False
  have "file_path (s\<lparr>file_path := sel\<rparr>) \<noteq> []" using False by simp
  from ut_label [OF this, of fs s'] False show ?thesis
    by (simp add: select_file_def ut_keeps)
qed

lemma step_display:
  "(file_path (step fs ev s) = file_path s \<and>
    temperature_label_text (step fs ev s) = temperature_label_text s) \<or>
   temperature_label_text (step fs ev s) =
     (case fst (read_latest_temperature fs (file_path (step fs ev s)) s') of
        Inr (Some t) \<Rightarrow> format_2f t
      | _ \<Rightarrow> ''--'')"
proof (cases ev)
  case (SelectFile sel)
  then show ?thesis using select_file_display [of fs sel s s'] by simp
next
  case MenuUpdate
  then show ?thesis using ut_display [of fs s s'] by simp
next
  case (ChangeFontSize entries)
  then show ?thesis by (simp add: change_font_size_def split: option.splits)
next
  case (ChangeBgColor color)
  then show ?thesis by (simp add: change_bg_color_def split: option.splits)
next
  case (Wait d)
  then show ?thesis by simp
next
  case TimerFires
  then show ?thesis using fire_timer_display [of fs s s'] by simp
qed

text \<open>
  C7: selecting a file sets the path and refreshes at once: the label is then what
  the parser gives for the new path in the file system of that moment, whatever the
  state was before. And every event either leaves path and label alone or leaves the
  label showing what the parser gives for the path then current.
\<close>

theorem select_file_refreshes:
  "(file_selected \<noteq> [] \<longrightarrow>
      file_path (snd (select_file fs file_selected s)) = file_selected \<and>
      temperature_label_text (snd (select_file fs file_selected s)) =
        (case fst (read_latest_temperature fs file_selected s') of
           Inr (Some t) \<Rightarrow> format_2f t
         | _ \<Rightarrow> ''--'')) \<and>
   ((file_path (step fs ev s) = file_path s \<and>
     temperature_label_text (step fs ev s) = temperature_label_text s) \<or>
    temperature_label_text (step fs ev s) =
      (case fst (read_latest_temperature fs (file_path (step fs ev s)) s') of
         Inr (Some t) \<Rightarrow> format_2f t
       | _ \<Rightarrow> ''--''))"
proof -
  have "file_path (s\<lparr>file_path := file_selected\<rparr>) \<noteq> []" if "file_selected \<noteq> []"
    using that by simp
  from ut_label [OF this, of fs s']
  have "file_selected \<noteq> [] \<longrightarrow>
      file_path (snd (select_file fs file_selected s)) = file_selected \<and>
      temperature_label_text (snd (select_file fs file_selected s)) =
        (case fst (read_latest_temperature fs file_selected s') of
           Inr (Some t) \<Rightarrow> format_2f t
         | _ \<Rightarrow> ''--'')"
    by (simp add: select_file_def ut_keeps)
  then show ?thesis using step_display [of fs ev s s'] by blast
qed

theorem select_file_refreshes_witness:
  "temperature_label_text
     (snd (select_file example_fs ''log.txt''
        (init\<lparr>file_path := ''sample.txt'', temperature_label_text := ''12.34''\<rparr>))) = ''20.50'' \<and>
   temperature_label_text
     (snd (select_file example_fs ''missing.txt''
        (init\<lparr>file_path := ''log.txt'', temperature_label_text := ''20.50''\<rparr>))) = ''--''"
  using select_file_refreshes [where file_selected = "''log.txt''" and fs = example_fs
          and s = "init\<lparr>file_path := ''sample.txt'', temperature_label_text := ''12.34''\<rparr>"
          and s' = init]
        select_file_refreshes [where file_selected = "''missing.txt''" and fs = example_fs
          and s = "init\<lparr>file_path := ''log.txt'', temperature_label_text := ''20.50''\<rparr>"
          and s' = init]
  by (simp add: log_txt_reading format_2f_20_5 rlt_raised example_files)

section \<open>The font size\<close>

lemma askinteger_bound: "askinteger minvalue entries = Some n \<Longrightarrow> minvalue \<le> n"
  by (induction minvalue entries rule: askinteger.induct) (auto split: if_splits)

lemma askinteger_all_small:
  "(\<forall>n. Enter n \<in> set entries \<longrightarrow> n < minvalue) \<Longrightarrow> askinteger minvalue entries = None"
  by (induction minvalue entries rule: askinteger.induct) auto

lemma change_font_size_positive:
  "0 < font_size s \<Longrightarrow> 0 < font_size (change_font_size entries s)"
  using askinteger_bound [of 1 entries]
  by (auto simp add: change_font_size_def split: option.splits)

lemma fire_timer_font: "font_size (fire_timer fs s) = font_size s"
proof (cases "timers s")
  case Nil
  then show ?thesis by (simp add: fire_timer_def)
next
  case (Cons t rest)
  obtain due cb where t: "t = (due, cb)" by (cases t)
  show ?thesis using Cons t ut_keeps [of fs "s\<lparr>timers := rest\<rparr>"]
    by (cases cb) (simp add: fire_timer_def)
qed

lemma step_font_positive: "0 < font_size s \<Longrightarrow> 0 < font_size (step fs ev s)"
  by (cases ev)
     (simp_all add: select_file_font fire_timer_font ut_keeps change_font_size_positive
        change_bg_color_def split: option.splits)

lemma run_font_positive: "0 < font_size s \<Longrightarrow> 0 < font_size (run evs s)"
  by (induction evs arbitrary: s) (auto simp add: step_font_positive)

text \<open>
  C8: an entry of 0 or less in the font size dialog is rejected: the dialog goes on
  with the next entry, and when no entry is above 0 the state, font size included, is
  unchanged. The font size is 10 at the start and positive after any run of events.
\<close>

theorem font_size_stays_positive:
  "(n \<le> 0 \<longrightarrow> change_font_size (Enter n # rest) s = change_font_size rest s) \<and>
   ((\<forall>n. Enter n \<in> set entries \<longrightarrow> n \<le> 0) \<longrightarrow> change_font_size entries s = s) \<and>
   font_size init = 10 \<and>
   0 < font_size (run evs init)"
proof -
  have "(\<forall>n. Enter n \<in> set entries \<longrightarrow> n \<le> 0) \<Longrightarrow> askinteger 1 entries = None"
    by (rule askinteger_all_small) auto
  moreover have "font_size init = 10" by (simp add: init_def)
  moreover from this have "0 < font_size (run evs init)" by (simp add: run_font_positive)
  ultimately show ?thesis by (simp add: change_font_size_def)
qed

theorem font_size_stays_positive_witness:
  "change_font_size [Enter 0, Enter (- 3), Cancel] init = init \<and>
   change_font_size [Enter (- 3), Enter 14] init = change_font_size [Enter 14] init \<and>
   font_size (change_font_size [Enter (- 3), Enter 14] init) = 14 \<and>
   0 < font_size (run [(example_fs, ChangeFontSize [Enter 0, Enter 14]),
                       (example_fs, ChangeFontSize [Enter (- 1)])] init)"
  using font_size_stays_positive [of 0 "[Enter (- 3), Cancel]" init "[Enter 0, Enter (- 3), Cancel]"
          "[(example_fs, ChangeFontSize [Enter 0, Enter 14]),
            (example_fs, ChangeFontSize [Enter (- 1)])]"]
        font_size_stays_positive [of "- 3" "[Enter 14]" init "[]" "[]"]
  by (simp add: change_font_size_def)

section \<open>Timers\<close>

lemma fire_timer_count:
  assumes "file_path s \<noteq> []"
  shows "length (timers (fire_timer fs s)) = length (timers s)"
proof (cases "timers s")
  case Nil
  then show ?thesis by (simp add: fire_timer_def)
next
  case (Cons t rest)
  obtain due cb where t: "t = (due, cb)" by (cases t)
  have "file_path (s\<lparr>timers := rest\<rparr>) \<noteq> []" using assms by simp
  from ut_timers [OF this, of fs] show ?thesis using Cons t
    by (cases cb) (simp add: fire_timer_def)
qed

lemma fire_timer_path: "file_path (fire_timer fs s) = file_path s"
proof (cases "timers s")
  case Nil
  then show ?thesis by (simp add: fire_timer_def)
next
  case (Cons t rest)
  obtain due cb where t: "t = (due, cb)" by (cases t)
  show ?thesis using Cons t ut_keeps [of fs "s\<lparr>timers := rest\<rparr>"]
    by (cases cb) (simp add: fire_timer_def)
qed

lemma step_keeps_path_set: "file_path s \<noteq> [] \<Longrightarrow> file_path (step fs ev s) \<noteq> []"
  by (cases ev)
     (simp_all add: select_file_path fire_timer_path ut_keeps change_font_size_def
        change_bg_color_def split: option.splits)

lemma step_timers_count:
  assumes "file_path s \<noteq> []"
  shows "length (timers s) \<le> length (timers (step fs ev s))"
proof (cases ev)
  case (SelectFile sel)
  then show ?thesis by (cases "sel = []") (simp_all add: select_file_timers, simp add: select_file_def)
next
  case MenuUpdate
  then show ?thesis using assms by (simp add: ut_timers)
next
  case (ChangeFontSize entries)
  then show ?thesis by (simp add: change_font_size_def split: option.splits)
next
  case (ChangeBgColor color)
  then show ?thesis by (simp add: change_bg_color_def split: option.splits)
next
  case (Wait d)
  then show ?thesis by simp
next
  case TimerFires
  then show ?thesis using assms by (simp add: fire_timer_count)
qed

lemma menu_updates_count:
  "file_path s \<noteq> [] \<Longrightarrow>
   length (timers (run (replicate n (fs, MenuUpdate)) s)) = length (timers s) + n"
proof (induction n arbitrary: s)
  case 0
  then show ?case by simp
next
  case (Suc n)
  have "file_path (snd (update_temperature fs s)) \<noteq> []" using Suc.prems by (simp add: ut_keeps)
  from Suc.IH [OF this] show ?case using Suc.prems by (simp add: ut_timers)
qed

text \<open>
  C10: with a path set, every refresh arms one more timer: the one run by selecting
  a file, the one run from the menu, and the one run by a timer, which replaces the
  timer that fired. So no event lowers the number of armed timers, each selection and
  each refresh from the menu raises it by one, and \<open>n\<close> refreshes from the menu raise
  it by \<open>n\<close>.
\<close>

theorem timer_chains_accumulate:
  "(file_path s \<noteq> [] \<longrightarrow>
      length (timers (snd (update_temperature fs s))) = Suc (length (timers s))) \<and>
   (file_selected \<noteq> [] \<longrightarrow>
      length (timers (step fs (SelectFile file_selected) s)) = Suc (length (timers s))) \<and>
   (file_path s \<noteq> [] \<longrightarrow>
      length (timers (step fs MenuUpdate s)) = Suc (length (timers s)) \<and>
      length (timers (step fs TimerFires s)) = length (timers s) \<and>
      length (timers s) \<le> length (timers (step fs ev s)) \<and>
      file_path (step fs ev s) \<noteq> [] \<and>
      length (timers (run (replicate n (fs, MenuUpdate)) s)) = length (timers s) + n)"
  by (simp add: ut_timers select_file_timers fire_timer_count step_timers_count
        step_keeps_path_set menu_updates_count)

theorem timer_chains_accumulate_witness:
  "length (timers (step example_fs (SelectFile ''log.txt'') init)) = 1 \<and>
   length (timers (run (replicate 5 (example_fs, MenuUpdate))
                     (step example_fs (SelectFile ''log.txt'') init))) = 6 \<and>
   length (timers (step example_fs TimerFires
                     (step example_fs (Wait 180000)
                        (step example_fs (SelectFile ''log.txt'') init)))) = 1"
proof -
  let ?s1 = "step example_fs (SelectFile ''log.txt'') init"
  let ?s2 = "step example_fs (Wait 180000) ?s1"
  have one: "length (timers ?s1) = 1"
    using timer_chains_accumulate [where s = init and file_selected = "''log.txt''" and fs = example_fs]
    by (simp add: init_def)
  have path1: "file_path ?s1 \<noteq> []" by (simp add: select_file_path)
  have path2: "file_path ?s2 \<noteq> []" using path1 by simp
  have "length (timers (run (replicate 5 (example_fs, MenuUpdate)) ?s1)) = 6"
    using timer_chains_accumulate [where s = ?s1 and fs = example_fs and n = 5] path1 one
    by simp
  moreover have "length (timers (step example_fs TimerFires ?s2)) = 1"
    using timer_chains_accumulate [where s = ?s2 and fs = example_fs] path2 one
    by simp
  ultimately show ?thesis using one by simp
qed

end
